theory Spec2Isabelle
  imports Complex_Main "HOL-Library.Word" "HOL-Library.Multiset"
begin

section \<open>JavaScript numbers that hold integers\<close>

text \<open>
  Every number of the generator is an IEEE-754 double. A double holds every integer below
  \<open>2^53\<close> exactly; a larger integer result of \<open>+\<close> or \<open>*\<close> is rounded to the nearest
  double, ties to the even significand. \<open>fround\<close> is that rounding on the non-negative
  integers (all values met here stay far below the overflow threshold \<open>2^1024\<close>).
\<close>

fun bit_length :: "nat \<Rightarrow> nat" where
  "bit_length n = (if n = 0 then 0 else Suc (bit_length (n div 2)))"

declare bit_length.simps [simp del]

definition fround :: "nat \<Rightarrow> nat" where
  "fround n =
     (if n < 2 ^ 53 then n
      else let e = bit_length n - 53; q = n div 2 ^ e; r = n mod 2 ^ e; h = 2 ^ (e - 1)
           in if h < r \<or> (r = h \<and> odd q) then (q + 1) * 2 ^ e else q * 2 ^ e)"

section \<open>PRNG: createRng\<close>

text \<open>
  A seed is a JavaScript string: a sequence of UTF-16 code units, which \<open>split("")\<close>
  separates and \<open>charCodeAt(0)\<close> reads.
\<close>

type_synonym js_string = "16 word list"

text \<open>
  The closure returned by \<open>createRng\<close> is a function without arguments and with private
  state. Such a function is modelled by the sequence of the values it returns (\<open>draws g k\<close>
  is the value of invocation number \<open>k\<close>, counted from 0) together with the number of
  invocations made so far.
\<close>

record rng =
  draws :: "nat \<Rightarrow> real"
  calls :: nat

definition draw :: "rng \<Rightarrow> real \<times> rng" where
  "draw g = (draws g (calls g), g\<lparr>calls := Suc (calls g)\<rparr>)"


text \<open>\<open>seed.split("").reduce((acc, ch) => acc + ch.charCodeAt(0), 0)\<close>\<close>

definition seedAcc :: "js_string \<Rightarrow> nat" where
  "seedAcc seed = foldl (\<lambda>acc ch. fround (acc + unat ch)) 0 seed"

text \<open>\<open>... || 1\<close>: a zero sum is replaced by 1.\<close>

definition seedState :: "js_string \<Rightarrow> nat" where
  "seedState seed = (if seedAcc seed = 0 then 1 else seedAcc seed)"

text \<open>\<open>s = (s * 1664525 + 1013904223) % 4294967296\<close>, in double arithmetic.\<close>

definition lcg_next :: "nat \<Rightarrow> nat" where
  "lcg_next s = fround (fround (s * 1664525) + 1013904223) mod 4294967296"

text \<open>Invocation \<open>k\<close> advances the state for the \<open>k+1\<close>-th time and returns \<open>s / 4294967296\<close>.\<close>

definition createRng :: "js_string \<Rightarrow> rng" where
  "createRng seed =
     \<lparr>draws = (\<lambda>k. real ((lcg_next ^^ Suc k) (seedState seed)) / 4294967296), calls = 0\<rparr>"




definition unit_draws :: "rng \<Rightarrow> bool" where
  "unit_draws g \<longleftrightarrow> (\<forall>k. 0 \<le> draws g k \<and> draws g k < 1)"

section \<open>Data model (types.ts)\<close>

text \<open>
  Counts, ids, weights and scores are JavaScript numbers that hold integers well below
  \<open>2^53\<close>; they are modelled by \<open>int\<close>. Ratios and draws are modelled by \<open>real\<close>, and
  a product of a ratio or draw with an integer is taken exactly.
\<close>

datatype TraitCategory = CHAOS | THRESHOLD | ORDEAL_REWARD | MYTHIC

datatype Archetype = Bull | Bear | Hybrid

record TraitConfig =
  trait_name :: string
  trait_category :: TraitCategory

record LayerConfig =
  layer_name :: string
  layer_key :: string
  layer_traits :: "TraitConfig list"

record TierThreshold =
  tier_number :: int
  tier_name :: string
  tier_min :: int
  tier_max :: int

record HeroStation =
  station_id :: int
  station_name :: string

record CollectionConfig =
  collection_name :: string
  symbol :: string
  family :: string
  description_base :: string
  seller_fee_basis_points :: int
  image_cid :: string
  external_url :: string
  creator_address :: string

record ScoringConfig =
  categories :: "TraitCategory \<Rightarrow> int"
  tier_thresholds :: "TierThreshold list"

record HeroJourneyConfig =
  stations :: "HeroStation list"

record MetaGenConfig =
  collection :: CollectionConfig
  scoring :: ScoringConfig
  hero_journey :: HeroJourneyConfig
  layers :: "LayerConfig list"

record GeneratedTrait =
  layerKey :: string
  traitType :: string
  trait_value :: string
  category :: TraitCategory
  score :: int

record NftBlueprint =
  bp_id :: int
  bp_station :: HeroStation
  bp_archetype :: Archetype

record GeneratedNft =
  nft_id :: int
  nft_station :: HeroStation
  nft_archetype :: Archetype
  traits :: "GeneratedTrait list"
  totalScore :: int
  tier :: TierThreshold
  inscriptionTag :: string
  mintTimestamp :: int

text \<open>
  Every \<open>throw\<close> of the generator, and the \<open>TypeError\<close> of a property read on
  \<open>undefined\<close>. \<open>SparseArray\<close> is not an exception of the source: it marks a run in
  which a draw outside \<open>[0, 1)\<close> sent a shuffle index outside the array, where JavaScript
  stores \<open>undefined\<close> and grows the array; the model does not follow such an array further.
\<close>

datatype error =
    ExpectedLayers nat
  | LayerTraitCount string nat
  | MissingCategory string
  | ExpectedTierThresholds
  | ExpectedStations
  | UnknownStationId int
  | ScoreOutsideTiers int int int
  | ExpectedBlueprints nat
  | TypeError
  | SparseArray

section \<open>Station distribution (station-distribution.ts)\<close>

record StationAllocation =
  stationId :: int
  alloc_count :: int
  bullRatio :: real
  bearRatio :: real
  hybridCount :: "int option"

definition STATION_DISTRIBUTION :: "StationAllocation list" where
  "STATION_DISTRIBUTION =
    [\<lparr>stationId = 1, alloc_count = 28, bullRatio = 0.5, bearRatio = 0.5, hybridCount = None\<rparr>,
     \<lparr>stationId = 2, alloc_count = 28, bullRatio = 0.5, bearRatio = 0.5, hybridCount = None\<rparr>,
     \<lparr>stationId = 3, alloc_count = 28, bullRatio = 0.5, bearRatio = 0.5, hybridCount = None\<rparr>,
     \<lparr>stationId = 4, alloc_count = 28, bullRatio = 0.5, bearRatio = 0.5, hybridCount = None\<rparr>,
     \<lparr>stationId = 5, alloc_count = 28, bullRatio = 0.5, bearRatio = 0.5, hybridCount = None\<rparr>,
     \<lparr>stationId = 6, alloc_count = 28, bullRatio = 0.5, bearRatio = 0.5, hybridCount = None\<rparr>,
     \<lparr>stationId = 7, alloc_count = 28, bullRatio = 0.5, bearRatio = 0.5, hybridCount = None\<rparr>,
     \<lparr>stationId = 8, alloc_count = 29, bullRatio = 0.48, bearRatio = 0.48, hybridCount = Some 1\<rparr>,
     \<lparr>stationId = 9, alloc_count = 27, bullRatio = 0.5, bearRatio = 0.5, hybridCount = None\<rparr>,
     \<lparr>stationId = 10, alloc_count = 27, bullRatio = 0.5, bearRatio = 0.5, hybridCount = None\<rparr>,
     \<lparr>stationId = 11, alloc_count = 27, bullRatio = 0.5, bearRatio = 0.5, hybridCount = None\<rparr>,
     \<lparr>stationId = 12, alloc_count = 27, bullRatio = 0.5, bearRatio = 0.5, hybridCount = None\<rparr>]"

text \<open>\<open>Math.round\<close>: the nearest integer, a tie going up (\<open>Math.round(-0.5)\<close> is 0).\<close>

definition Math_round :: "real \<Rightarrow> int" where
  "Math_round x = \<lfloor>x + 1 / 2\<rfloor>"

record ArchetypeCounts =
  bulls :: int
  bears :: int
  hybrids :: int

text \<open>\<open>alloc.hybridCount || 0\<close>: an absent count and a count of zero both give 0.\<close>

definition getArchetypeCounts :: "StationAllocation \<Rightarrow> ArchetypeCounts" where
  "getArchetypeCounts alloc =
     (let hybrids = (case hybridCount alloc of
                       None \<Rightarrow> 0
                     | Some h \<Rightarrow> if h = 0 then 0 else h);
          remaining = alloc_count alloc - hybrids;
          bulls = Math_round (real_of_int remaining * bullRatio alloc);
          bears = remaining - bulls
      in \<lparr>bulls = bulls, bears = bears, hybrids = hybrids\<rparr>)"

section \<open>Shuffle (generator.ts)\<close>

text \<open>
  \<open>Math.floor(rng() * n)\<close> for the drawn value \<open>r\<close>, with the product taken exactly.
  For the values of \<open>createRng\<close>, which are multiples of \<open>2^-32\<close>, and \<open>n < 2^21\<close> the
  double product is exact as well; otherwise its rounding can move the index to a
  neighbour, but for \<open>0 \<le> r < 1\<close> never outside \<open>0, \<dots>, n - 1\<close>.
\<close>

definition floorIndex :: "real \<Rightarrow> nat \<Rightarrow> int" where
  "floorIndex r n = \<lfloor>r * real n\<rfloor>"

text \<open>
  \<open>[array[i], array[j]] = [array[j], array[i]]\<close>. With \<open>j\<close> inside the array this
  exchanges the two elements; with \<open>j\<close> outside, the array stops being a dense list
  (\<open>None\<close>).
\<close>

definition swap :: "'a list \<Rightarrow> nat \<Rightarrow> int \<Rightarrow> 'a list option" where
  "swap xs i j =
     (if 0 \<le> j \<and> nat j < length xs then Some (xs[i := xs ! nat j, nat j := xs ! i])
      else None)"

text \<open>
  \<open>for (let i = array.length - 1; i > 0; i--)\<close>: \<open>shuffle_loop i\<close> runs the iterations for
  the indices \<open>i, i - 1, \<dots>, 1\<close>. The bound is read once, before the first draw.
\<close>

fun shuffle_loop :: "nat \<Rightarrow> 'a list option \<Rightarrow> rng \<Rightarrow> 'a list option \<times> rng" where
  "shuffle_loop 0 arr g = (arr, g)"
| "shuffle_loop (Suc i) arr g =
     (let (r, g') = draw g;
          j = floorIndex r (Suc i + 1)
      in shuffle_loop i (Option.bind arr (\<lambda>xs. swap xs (Suc i) j)) g')"

text \<open>For the empty array \<open>array.length - 1\<close> is \<open>-1\<close> and the loop does not run.\<close>

definition shuffleInPlace :: "'a list \<Rightarrow> rng \<Rightarrow> 'a list option \<times> rng" where
  "shuffleInPlace array g = shuffle_loop (length array - 1) (Some array) g"

section \<open>Blueprint generation\<close>

text \<open>
  \<open>for (let i = 0; i < n; i++) blueprints.push({ id: id++, station, archetype })\<close>; the
  state is the array and the counter \<open>id\<close>.
\<close>

primrec pushMany ::
  "nat \<Rightarrow> HeroStation \<Rightarrow> Archetype \<Rightarrow> NftBlueprint list \<times> int \<Rightarrow> NftBlueprint list \<times> int" where
  "pushMany 0 station archetype s = s"
| "pushMany (Suc n) station archetype s =
     pushMany n station archetype
       (fst s @ [\<lparr>bp_id = snd s, bp_station = station, bp_archetype = archetype\<rparr>], snd s + 1)"

text \<open>The body of \<open>for (const alloc of dist)\<close>; a loop bounded by \<open>c\<close> runs \<open>nat c\<close> times.\<close>

fun expandAllocations ::
  "MetaGenConfig \<Rightarrow> StationAllocation list \<Rightarrow> NftBlueprint list \<times> int \<Rightarrow>
   error + NftBlueprint list \<times> int" where
  "expandAllocations config [] s = Inr s"
| "expandAllocations config (alloc # rest) s =
     (case find (\<lambda>st. station_id st = stationId alloc) (stations (hero_journey config)) of
        None \<Rightarrow> Inl (UnknownStationId (stationId alloc))
      | Some station \<Rightarrow>
          (let counts = getArchetypeCounts alloc;
               s1 = pushMany (nat (hybrids counts)) station Hybrid s;
               s2 = pushMany (nat (bulls counts)) station Bull s1;
               s3 = pushMany (nat (bears counts)) station Bear s2
           in expandAllocations config rest s3))"

text \<open>\<open>blueprints.forEach((bp, idx) => { bp.id = idx + 1 })\<close>, from index \<open>idx\<close> on.\<close>

fun reassignIds :: "nat \<Rightarrow> NftBlueprint list \<Rightarrow> NftBlueprint list" where
  "reassignIds idx [] = []"
| "reassignIds idx (bp # bps) = bp\<lparr>bp_id := int idx + 1\<rparr> # reassignIds (Suc idx) bps"

definition buildNftBlueprints ::
  "MetaGenConfig \<Rightarrow> StationAllocation list \<Rightarrow> rng \<Rightarrow> error + NftBlueprint list \<times> rng" where
  "buildNftBlueprints config distribution g =
     (case expandAllocations config distribution ([], 1) of
        Inl e \<Rightarrow> Inl e
      | Inr (blueprints, next_id) \<Rightarrow>
          (case shuffleInPlace blueprints g of
             (None, g') \<Rightarrow> Inl SparseArray
           | (Some shuffled, g') \<Rightarrow> Inr (reassignIds 0 shuffled, g')))"

section \<open>Trait selection and scoring\<close>

text \<open>\<open>layer.traits[idx]\<close> is \<open>undefined\<close> (\<open>None\<close>) for an index outside the array.\<close>

definition pickRandomTrait :: "LayerConfig \<Rightarrow> rng \<Rightarrow> TraitConfig option \<times> rng" where
  "pickRandomTrait layer g =
     (let (r, g') = draw g;
          idx = floorIndex r (length (layer_traits layer))
      in (if 0 \<le> idx \<and> nat idx < length (layer_traits layer)
          then Some (layer_traits layer ! nat idx) else None, g'))"

text \<open>
  \<open>config.layers.map(...)\<close>, one layer after the other; \<open>trait.category\<close> on an
  \<open>undefined\<close> trait raises \<open>TypeError\<close>.
\<close>

fun generateTraits_loop ::
  "MetaGenConfig \<Rightarrow> LayerConfig list \<Rightarrow> rng \<Rightarrow> error + GeneratedTrait list \<times> rng" where
  "generateTraits_loop config [] g = Inr ([], g)"
| "generateTraits_loop config (layer # rest) g =
     (case pickRandomTrait layer g of
        (None, g') \<Rightarrow> Inl TypeError
      | (Some trait, g') \<Rightarrow>
          (let cat = trait_category trait;
               baseScore = categories (scoring config) cat;
               t = \<lparr>layerKey = layer_key layer, traitType = layer_name layer,
                    trait_value = trait_name trait, category = cat, score = baseScore\<rparr>
           in case generateTraits_loop config rest g' of
                Inl e \<Rightarrow> Inl e
              | Inr (ts, g'') \<Rightarrow> Inr (t # ts, g'')))"

definition generateTraitsForNft :: "MetaGenConfig \<Rightarrow> rng \<Rightarrow> error + GeneratedTrait list \<times> rng" where
  "generateTraitsForNft config g = generateTraits_loop config (layers config) g"

definition computeTotalScore :: "GeneratedTrait list \<Rightarrow> int" where
  "computeTotalScore ts = foldl (\<lambda>sum t. sum + score t) 0 ts"

text \<open>
  \<open>tiers.find(...)\<close>, then the \<open>throw\<close>; its message reads \<open>tiers[0].min\<close>, which is a
  \<open>TypeError\<close> for an empty tier list.
\<close>

definition resolveTier :: "int \<Rightarrow> TierThreshold list \<Rightarrow> error + TierThreshold" where
  "resolveTier sc tiers =
     (case find (\<lambda>t. sc \<ge> tier_min t \<and> sc \<le> tier_max t) tiers of
        Some t \<Rightarrow> Inr t
      | None \<Rightarrow>
          (case tiers of
             [] \<Rightarrow> Inl TypeError
           | t0 # _ \<Rightarrow> Inl (ScoreOutsideTiers sc (tier_min t0) (tier_max (last tiers)))))"

section \<open>Inscription tag\<close>

definition INSCRIPTION_CHARS :: string where
  "INSCRIPTION_CHARS = ''ABCDEFGHJKLMNPQRSTUVWXYZ23456789''"

text \<open>
  The loop body, \<open>n\<close> times. \<open>tag += INSCRIPTION_CHARS[idx]\<close> appends the text
  \<open>undefined\<close> when the index is outside the alphabet.
\<close>

fun tag_loop :: "nat \<Rightarrow> string \<Rightarrow> rng \<Rightarrow> string \<times> rng" where
  "tag_loop 0 tag g = (tag, g)"
| "tag_loop (Suc n) tag g =
     (let (r, g') = draw g;
          idx = floorIndex r (length INSCRIPTION_CHARS)
      in tag_loop n
           (tag @ (if 0 \<le> idx \<and> nat idx < length INSCRIPTION_CHARS
                   then [INSCRIPTION_CHARS ! nat idx] else ''undefined'')) g')"

definition generateTag :: "rng \<Rightarrow> string \<times> rng" where
  "generateTag g = tag_loop 4 [] g"

section \<open>Record generation\<close>

definition buildGeneratedNft ::
  "NftBlueprint \<Rightarrow> MetaGenConfig \<Rightarrow> rng \<Rightarrow> int \<Rightarrow> error + GeneratedNft \<times> rng" where
  "buildGeneratedNft blueprint config g ts =
     (case generateTraitsForNft config g of
        Inl e \<Rightarrow> Inl e
      | Inr (trs, g1) \<Rightarrow>
          (let total = computeTotalScore trs
           in case resolveTier total (tier_thresholds (scoring config)) of
                Inl e \<Rightarrow> Inl e
              | Inr tr \<Rightarrow>
                  (let (tag, g2) = generateTag g1
                   in Inr (\<lparr>nft_id = bp_id blueprint, nft_station = bp_station blueprint,
                            nft_archetype = bp_archetype blueprint, traits = trs,
                            totalScore = total, tier = tr, inscriptionTag = tag,
                            mintTimestamp = ts\<rparr>, g2))))"

text \<open>\<open>for (const bp of blueprints)\<close> of \<open>generateCollection\<close>, on the shared generator.\<close>

fun buildAll ::
  "NftBlueprint list \<Rightarrow> MetaGenConfig \<Rightarrow> rng \<Rightarrow> int \<Rightarrow> error + GeneratedNft list \<times> rng" where
  "buildAll [] config g ts = Inr ([], g)"
| "buildAll (bp # bps) config g ts =
     (case buildGeneratedNft bp config g ts of
        Inl e \<Rightarrow> Inl e
      | Inr (nft, g') \<Rightarrow>
          (case buildAll bps config g' ts of
             Inl e \<Rightarrow> Inl e
           | Inr (nfts, g'') \<Rightarrow> Inr (nft # nfts, g'')))"

text \<open>
  The pipeline of \<open>generateCollection\<close> from the creation of the generator to the last
  record, for a loaded configuration, a seed and the time stamp of the run; writing the
  files and logging are left out. The result holds the blueprints and the records.
\<close>

definition generateCollection ::
  "MetaGenConfig \<Rightarrow> js_string \<Rightarrow> int \<Rightarrow> error + NftBlueprint list \<times> GeneratedNft list" where
  "generateCollection config seed ts =
     (case buildNftBlueprints config STATION_DISTRIBUTION (createRng seed) of
        Inl e \<Rightarrow> Inl e
      | Inr (blueprints, g) \<Rightarrow>
          if length blueprints \<noteq> 333 then Inl (ExpectedBlueprints (length blueprints))
          else (case buildAll blueprints config g ts of
                  Inl e \<Rightarrow> Inl e
                | Inr (nfts, g') \<Rightarrow> Inr (blueprints, nfts)))"

text \<open>
  An allocation within the ranges its declaration documents: a hybrid count between 0 and
  the station's count, and a bull ratio between 0 and 1.
\<close>

definition valid_allocation :: "StationAllocation \<Rightarrow> bool" where
  "valid_allocation a \<longleftrightarrow>
     0 \<le> (case hybridCount a of None \<Rightarrow> 0 | Some h \<Rightarrow> h) \<and>
     (case hybridCount a of None \<Rightarrow> 0 | Some h \<Rightarrow> h) \<le> alloc_count a \<and>
     0 \<le> bullRatio a \<and> bullRatio a \<le> 1"

text \<open>An allocation that declares more hybrids than members.\<close>

definition overfull_distribution :: "StationAllocation list" where
  "overfull_distribution =
     [\<lparr>stationId = 1, alloc_count = 1, bullRatio = 0.5, bearRatio = 0.5, hybridCount = Some 2\<rparr>]"

text \<open>The station id and the archetype of a blueprint.\<close>

definition bp_kind :: "NftBlueprint \<Rightarrow> int \<times> Archetype" where
  "bp_kind bp = (station_id (bp_station bp), bp_archetype bp)"

text \<open>A record with its time stamp blanked, to compare the records of two runs.\<close>

definition without_timestamp :: "GeneratedNft \<Rightarrow> GeneratedNft" where
  "without_timestamp nft = nft\<lparr>mintTimestamp := 0\<rparr>"

text \<open>
  The generated trait that the attribute drafter records for a layer: one of the layer's
  traits, with its category and the weight of that category in the scoring table.
\<close>

definition drafted_from :: "MetaGenConfig \<Rightarrow> LayerConfig \<Rightarrow> GeneratedTrait \<Rightarrow> bool" where
  "drafted_from config layer t \<longleftrightarrow>
     (\<exists>trait \<in> set (layer_traits layer).
        t = \<lparr>layerKey = layer_key layer, traitType = layer_name layer,
             trait_value = trait_name trait, category = trait_category trait,
             score = categories (scoring config) (trait_category trait)\<rparr>)"

section \<open>Config loading\<close>


















section \<open>Sample configurations\<close>

definition sample_collection :: CollectionConfig where
  "sample_collection =
     \<lparr>collection_name = ''Surge Bulls & Void Bears'', symbol = ''SBVB'', family = ''Surge'',
      description_base = ''Sample'', seller_fee_basis_points = 500, image_cid = ''cid'',
      external_url = ''https://example.org'', creator_address = ''creator''\<rparr>"

definition sample_stations :: "HeroStation list" where
  "sample_stations =
     [\<lparr>station_id = 1, station_name = ''Ordinary World''\<rparr>,
      \<lparr>station_id = 2, station_name = ''Call to Adventure''\<rparr>,
      \<lparr>station_id = 3, station_name = ''Refusal of the Call''\<rparr>,
      \<lparr>station_id = 4, station_name = ''Meeting the Mentor''\<rparr>,
      \<lparr>station_id = 5, station_name = ''Crossing the Threshold''\<rparr>,
      \<lparr>station_id = 6, station_name = ''Tests, Allies, Enemies''\<rparr>,
      \<lparr>station_id = 7, station_name = ''Approach to the Inmost Cave''\<rparr>,
      \<lparr>station_id = 8, station_name = ''The Ordeal''\<rparr>,
      \<lparr>station_id = 9, station_name = ''Reward''\<rparr>,
      \<lparr>station_id = 10, station_name = ''The Road Back''\<rparr>,
      \<lparr>station_id = 11, station_name = ''Resurrection''\<rparr>,
      \<lparr>station_id = 12, station_name = ''Return with the Elixir''\<rparr>]"

definition sample_weights :: "TraitCategory \<Rightarrow> int" where
  "sample_weights c = (case c of CHAOS \<Rightarrow> 1 | THRESHOLD \<Rightarrow> 2 | ORDEAL_REWARD \<Rightarrow> 3 | MYTHIC \<Rightarrow> 5)"

definition sample_tiers :: "TierThreshold list" where
  "sample_tiers =
     [\<lparr>tier_number = 1, tier_name = ''Common'', tier_min = 2, tier_max = 5\<rparr>,
      \<lparr>tier_number = 2, tier_name = ''Rare'', tier_min = 6, tier_max = 10\<rparr>]"

definition sample_layers :: "LayerConfig list" where
  "sample_layers =
     [\<lparr>layer_name = ''Background'', layer_key = ''background'',
       layer_traits = [\<lparr>trait_name = ''Red'', trait_category = CHAOS\<rparr>,
                       \<lparr>trait_name = ''Blue'', trait_category = THRESHOLD\<rparr>,
                       \<lparr>trait_name = ''Gold'', trait_category = MYTHIC\<rparr>]\<rparr>,
      \<lparr>layer_name = ''Body'', layer_key = ''body'',
       layer_traits = [\<lparr>trait_name = ''Bull'', trait_category = CHAOS\<rparr>,
                       \<lparr>trait_name = ''Bear'', trait_category = ORDEAL_REWARD\<rparr>,
                       \<lparr>trait_name = ''Void'', trait_category = MYTHIC\<rparr>]\<rparr>]"

definition sample_config :: MetaGenConfig where
  "sample_config =
     \<lparr>collection = sample_collection,
      scoring = \<lparr>categories = sample_weights, tier_thresholds = sample_tiers\<rparr>,
      hero_journey = \<lparr>stations = sample_stations\<rparr>,
      layers = sample_layers\<rparr>"


section \<open>Properties of the PRNG\<close>

lemma fround_exact: "n < 2 ^ 53 \<Longrightarrow> fround n = n"
  by (simp add: fround_def)




lemma lcg_next_bound: "lcg_next s < 4294967296"
  by (simp add: lcg_next_def)





lemma createRng_unit: "unit_draws (createRng seed)"
proof -
  have "real (lcg_next s) / 4294967296 < 1" for s
    using lcg_next_bound [of s] by simp
  then show ?thesis by (simp add: unit_draws_def createRng_def)
qed

lemma draw_calls [simp]: "calls (snd (draw g)) = Suc (calls g)"
  by (simp add: draw_def)

lemma draw_draws [simp]: "draws (snd (draw g)) = draws g"
  by (simp add: draw_def)

lemma draw_fst: "fst (draw g) = draws g (calls g)"
  by (simp add: draw_def)

lemma draw_unit: "unit_draws g \<Longrightarrow> unit_draws (snd (draw g))"
  by (simp add: unit_draws_def)

lemma draw_range: "unit_draws g \<Longrightarrow> 0 \<le> fst (draw g) \<and> fst (draw g) < 1"
  by (simp add: unit_draws_def draw_fst)

lemma floorIndex_range:
  assumes "0 \<le> r" and "r < 1" and "0 < n"
  shows "0 \<le> floorIndex r n \<and> nat (floorIndex r n) < n"
proof -
  from assms have "0 \<le> r * real n" by simp
  then have lo: "0 \<le> floorIndex r n" by (simp add: floorIndex_def)
  from assms have "r * real n < 1 * real n" by (intro mult_strict_right_mono) simp_all
  then have "r * real n < real_of_int (int n)" by simp
  then have "floorIndex r n < int n" unfolding floorIndex_def by (simp only: floor_less_iff)
  with lo show ?thesis by simp
qed

text \<open>A sample generator: the seed \<open>"AB"\<close>, whose first states are evaluated here.\<close>

lemma seedState_AB: "seedState [0x41, 0x42] = 131"
  by (simp add: seedState_def seedAcc_def fround_exact)

lemma createRng_AB_draws:
  "draws (createRng [0x41, 0x42]) 0 = 1231956998 / 4294967296"
  "draws (createRng [0x41, 0x42]) (Suc 0) = 690459565 / 4294967296"
  "draws (createRng [0x41, 0x42]) (Suc (Suc 0)) = 2217566504 / 4294967296"
  "draws (createRng [0x41, 0x42]) (Suc (Suc (Suc 0))) = 2220544615 / 4294967296"
  "draws (createRng [0x41, 0x42]) (Suc (Suc (Suc (Suc 0)))) = 2968497306 / 4294967296"
  "draws (createRng [0x41, 0x42]) (Suc (Suc (Suc (Suc (Suc 0))))) = 2456425265 / 4294967296"
  by (simp_all add: createRng_def seedState_AB lcg_next_def fround_exact)

lemma createRng_AB_calls: "calls (createRng [0x41, 0x42]) = 0"
  by (simp add: createRng_def)




section \<open>Allocation\<close>


section \<open>Shuffle\<close>

lemma shuffle_loop_calls: "calls (snd (shuffle_loop i arr g)) = calls g + i"
  by (induction i arbitrary: arr g) (simp_all add: Let_def split_beta)

lemma shuffle_loop_draws: "draws (snd (shuffle_loop i arr g)) = draws g"
  by (induction i arbitrary: arr g) (simp_all add: Let_def split_beta)

text \<open>
  Claim C6. On a sequence of length \<open>N \<ge> 2\<close>, \<open>shuffleInPlace\<close> invokes the draw
  function exactly \<open>N - 1\<close> times; on a sequence of length 0 or 1 it does not invoke it.
\<close>

theorem shuffleInPlace_draw_count:
  "(2 \<le> length xs \<longrightarrow> calls (snd (shuffleInPlace xs g)) = calls g + (length xs - 1)) \<and>
   (length xs \<le> 1 \<longrightarrow> calls (snd (shuffleInPlace xs g)) = calls g) \<and>
   draws (snd (shuffleInPlace xs g)) = draws g"
  by (auto simp: shuffleInPlace_def shuffle_loop_calls shuffle_loop_draws)

theorem shuffleInPlace_draw_count_witness:
  "2 \<le> length ''abc'' \<and> calls (snd (shuffleInPlace ''abc'' (createRng [0x41, 0x42]))) = 2 \<and>
   length ''a'' \<le> 1 \<and> calls (snd (shuffleInPlace ''a'' (createRng [0x41, 0x42]))) = 0"
  using shuffleInPlace_draw_count [of "''abc''" "createRng [0x41, 0x42]"]
    shuffleInPlace_draw_count [of "''a''" "createRng [0x41, 0x42]"]
  by (simp add: createRng_AB_calls)

section \<open>Inscription tag\<close>

lemma tag_loop_calls: "calls (snd (tag_loop n tag g)) = calls g + n"
  by (induction n arbitrary: tag g) (simp_all add: Let_def split_beta)

lemma tag_loop_draws: "draws (snd (tag_loop n tag g)) = draws g"
  by (induction n arbitrary: tag g) (simp_all add: Let_def split_beta)

lemma INSCRIPTION_CHARS_length: "length INSCRIPTION_CHARS = 32"
  by (simp add: INSCRIPTION_CHARS_def)

lemma tag_loop_shape:
  "unit_draws g \<Longrightarrow>
   \<exists>cs. fst (tag_loop n tag g) = tag @ cs \<and> length cs = n \<and> set cs \<subseteq> set INSCRIPTION_CHARS"
proof (induction n arbitrary: tag g)
  case 0
  then show ?case by simp
next
  case (Suc n)
  let ?idx = "floorIndex (fst (draw g)) (length INSCRIPTION_CHARS)"
  let ?c = "INSCRIPTION_CHARS ! nat ?idx"
  from draw_range [OF Suc.prems]
  have r: "0 \<le> ?idx \<and> nat ?idx < length INSCRIPTION_CHARS"
    by (intro floorIndex_range) (simp_all add: INSCRIPTION_CHARS_length)
  then have mem: "?c \<in> set INSCRIPTION_CHARS" by simp
  from Suc.IH [OF draw_unit [OF Suc.prems], of "tag @ [?c]"]
  obtain cs where cs: "fst (tag_loop n (tag @ [?c]) (snd (draw g))) = (tag @ [?c]) @ cs"
    "length cs = n" "set cs \<subseteq> set INSCRIPTION_CHARS" by blast
  from r cs(1) have "fst (tag_loop (Suc n) tag g) = tag @ (?c # cs)"
    by (simp add: Let_def split_beta)
  moreover from cs(2) have "length (?c # cs) = Suc n" by simp
  moreover from cs(3) mem have "set (?c # cs) \<subseteq> set INSCRIPTION_CHARS" by simp
  ultimately show ?case by blast
qed

lemma generateTag_AB: "fst (generateTag (createRng [0x41, 0x42])) = ''KFSS''"
  by (simp add: generateTag_def eval_nat_numeral Let_def split_beta draw_def
      createRng_AB_draws createRng_AB_calls floorIndex_def INSCRIPTION_CHARS_def)

text \<open>
  Claim C7, as amended. For every draw function with values in \<open>[0, 1)\<close>, \<open>generateTag\<close>
  consumes exactly 4 draws and returns exactly 4 characters, each of the alphabet
  \<open>INSCRIPTION_CHARS\<close>; that alphabet has 32 distinct symbols: the upper-case letters
  without \<open>I\<close> and \<open>O\<close>, and the digits 2 to 9.
\<close>

theorem generateTag_shape:
  assumes "unit_draws g"
  shows "calls (snd (generateTag g)) = calls g + 4 \<and>
         length (fst (generateTag g)) = 4 \<and>
         set (fst (generateTag g)) \<subseteq> set INSCRIPTION_CHARS \<and>
         length INSCRIPTION_CHARS = 32 \<and> distinct INSCRIPTION_CHARS \<and>
         set INSCRIPTION_CHARS =
           set ''ABCDEFGHIJKLMNOPQRSTUVWXYZ'' - {CHR ''I'', CHR ''O''} \<union> set ''23456789''"
proof -
  from tag_loop_shape [OF assms, of 4 "[]"] obtain cs where
    "fst (generateTag g) = cs" "length cs = 4" "set cs \<subseteq> set INSCRIPTION_CHARS"
    by (auto simp: generateTag_def)
  moreover have "distinct INSCRIPTION_CHARS" by (simp add: INSCRIPTION_CHARS_def)
  moreover have "set INSCRIPTION_CHARS =
           set ''ABCDEFGHIJKLMNOPQRSTUVWXYZ'' - {CHR ''I'', CHR ''O''} \<union> set ''23456789''"
    by (auto simp: INSCRIPTION_CHARS_def)
  ultimately show ?thesis
    by (simp add: generateTag_def tag_loop_calls INSCRIPTION_CHARS_length)
qed

theorem generateTag_shape_witness:
  "unit_draws (createRng [0x41, 0x42]) \<and>
   fst (generateTag (createRng [0x41, 0x42])) = ''KFSS'' \<and>
   calls (snd (generateTag (createRng [0x41, 0x42]))) = 4 \<and>
   set ''KFSS'' \<subseteq> set INSCRIPTION_CHARS"
proof -
  have u: "unit_draws (createRng [0x41, 0x42])" by (rule createRng_unit)
  from generateTag_shape [OF u] u show ?thesis
    by (simp add: generateTag_AB createRng_AB_calls)
qed

text \<open>The alphabet of the claim as stated, with 33 symbols, is not the declared one.\<close>

theorem generateTag_alphabet_counterexample:
  "card (set INSCRIPTION_CHARS) \<noteq> 33 \<and> length INSCRIPTION_CHARS \<noteq> 33"
proof -
  have "distinct INSCRIPTION_CHARS" by (simp add: INSCRIPTION_CHARS_def)
  then have "card (set INSCRIPTION_CHARS) = length INSCRIPTION_CHARS" by (rule distinct_card)
  then show ?thesis by (simp add: INSCRIPTION_CHARS_length)
qed

section \<open>Config loading\<close>











section \<open>Trait selection\<close>

lemma pickRandomTrait_in_bounds:
  assumes "unit_draws g" and "layer_traits l \<noteq> []"
  shows "0 \<le> floorIndex (fst (draw g)) (length (layer_traits l)) \<and>
         nat (floorIndex (fst (draw g)) (length (layer_traits l))) < length (layer_traits l) \<and>
         pickRandomTrait l g =
           (Some (layer_traits l ! nat (floorIndex (fst (draw g)) (length (layer_traits l)))),
            snd (draw g))"
proof -
  from assms(2) have "0 < length (layer_traits l)" by simp
  with draw_range [OF assms(1)]
  have "0 \<le> floorIndex (fst (draw g)) (length (layer_traits l)) \<and>
        nat (floorIndex (fst (draw g)) (length (layer_traits l))) < length (layer_traits l)"
    by (intro floorIndex_range) simp_all
  then show ?thesis by (simp add: pickRandomTrait_def Let_def split_beta)
qed

lemma generateTraits_loop_ok:
  "unit_draws g \<Longrightarrow> \<forall>l \<in> set ls. layer_traits l \<noteq> [] \<Longrightarrow>
   \<exists>ts g'. generateTraits_loop config ls g = Inr (ts, g') \<and>
     calls g' = calls g + length ls \<and> draws g' = draws g \<and>
     list_all2 (drafted_from config) ls ts"
proof (induction ls arbitrary: g)
  case Nil
  then show ?case by simp
next
  case (Cons l ls)
  let ?i = "nat (floorIndex (fst (draw g)) (length (layer_traits l)))"
  let ?tr = "layer_traits l ! ?i"
  from Cons.prems have ne: "layer_traits l \<noteq> []" by simp
  from pickRandomTrait_in_bounds [OF Cons.prems(1) ne]
  have i: "?i < length (layer_traits l)" and p: "pickRandomTrait l g = (Some ?tr, snd (draw g))"
    by simp_all
  from Cons.prems have rest: "\<forall>l \<in> set ls. layer_traits l \<noteq> []" by simp
  from Cons.IH [OF draw_unit [OF Cons.prems(1)] rest]
  obtain ts g' where r: "generateTraits_loop config ls (snd (draw g)) = Inr (ts, g')"
    "calls g' = calls (snd (draw g)) + length ls" "draws g' = draws (snd (draw g))"
    "list_all2 (drafted_from config) ls ts" by blast
  let ?t = "\<lparr>layerKey = layer_key l, traitType = layer_name l, trait_value = trait_name ?tr,
             category = trait_category ?tr,
             score = categories (scoring config) (trait_category ?tr)\<rparr>"
  from i have "drafted_from config l ?t"
    unfolding drafted_from_def by (intro bexI [of _ ?tr]) simp_all
  with p r show ?case by (simp add: Let_def)
qed


lemma sample_traits_AB:
  "generateTraitsForNft sample_config (createRng [0x41, 0x42]) =
   Inr ([\<lparr>layerKey = ''background'', traitType = ''Background'', trait_value = ''Red'',
          category = CHAOS, score = 1\<rparr>,
         \<lparr>layerKey = ''body'', traitType = ''Body'', trait_value = ''Bull'',
          category = CHAOS, score = 1\<rparr>],
        (createRng [0x41, 0x42])\<lparr>calls := 2\<rparr>)"
  by (simp add: generateTraitsForNft_def sample_config_def sample_layers_def sample_weights_def
      pickRandomTrait_def draw_def Let_def createRng_AB_calls createRng_AB_draws floorIndex_def)


section \<open>Score and tier\<close>

lemma foldl_score: "foldl (\<lambda>sum t. sum + score t) a ts = a + sum_list (map score ts)"
  by (induction ts arbitrary: a) simp_all

lemma computeTotalScore_sum: "computeTotalScore ts = sum_list (map score ts)"
  by (simp add: computeTotalScore_def foldl_score)

lemma resolveTier_Inr:
  "resolveTier sc tiers = Inr t \<longleftrightarrow>
   find (\<lambda>t. tier_min t \<le> sc \<and> sc \<le> tier_max t) tiers = Some t"
  by (simp add: resolveTier_def split: option.splits list.splits)

lemma resolveTier_Inl:
  "(\<exists>e. resolveTier sc tiers = Inl e) \<longleftrightarrow>
   find (\<lambda>t. tier_min t \<le> sc \<and> sc \<le> tier_max t) tiers = None"
  by (simp add: resolveTier_def split: option.splits list.splits)

lemma buildGeneratedNft_Inr:
  assumes "buildGeneratedNft bp config g ts = Inr (nft, g')"
  shows "\<exists>trs g1. generateTraitsForNft config g = Inr (trs, g1) \<and>
           traits nft = trs \<and> totalScore nft = computeTotalScore trs \<and>
           resolveTier (computeTotalScore trs) (tier_thresholds (scoring config)) = Inr (tier nft) \<and>
           inscriptionTag nft = fst (generateTag g1) \<and> g' = snd (generateTag g1) \<and>
           nft_id nft = bp_id bp \<and> nft_station nft = bp_station bp \<and>
           nft_archetype nft = bp_archetype bp \<and> mintTimestamp nft = ts"
  using assms
  by (auto simp: buildGeneratedNft_def Let_def split_beta split: sum.splits)

text \<open>
  Claim C5. \<open>resolveTier\<close> returns the first tier of the list whose inclusive range
  contains the score whenever there is one, and raises an error if and only if no tier
  contains the score; so every generated record has \<open>tier.min \<le> totalScore \<le> tier.max\<close>,
  and its \<open>totalScore\<close> is \<open>computeTotalScore\<close> of its traits, the sum of their weights.
\<close>

theorem resolveTier_consistent:
  "(\<forall>t. resolveTier sc tiers = Inr t \<longrightarrow>
      tier_min t \<le> sc \<and> sc \<le> tier_max t \<and>
      (\<exists>i < length tiers. tiers ! i = t \<and>
         (\<forall>j < i. \<not> (tier_min (tiers ! j) \<le> sc \<and> sc \<le> tier_max (tiers ! j))))) \<and>
   ((\<exists>t \<in> set tiers. tier_min t \<le> sc \<and> sc \<le> tier_max t) \<longrightarrow>
      (\<exists>t. resolveTier sc tiers = Inr t)) \<and>
   ((\<exists>e. resolveTier sc tiers = Inl e) \<longleftrightarrow>
      \<not> (\<exists>t \<in> set tiers. tier_min t \<le> sc \<and> sc \<le> tier_max t)) \<and>
   (\<forall>nft g'. buildGeneratedNft bp config g ts = Inr (nft, g') \<longrightarrow>
      tier_min (tier nft) \<le> totalScore nft \<and> totalScore nft \<le> tier_max (tier nft) \<and>
      totalScore nft = computeTotalScore (traits nft) \<and>
      totalScore nft = sum_list (map score (traits nft)))"
proof (intro conjI allI impI)
  fix t
  assume "resolveTier sc tiers = Inr t"
  then have f: "find (\<lambda>t. tier_min t \<le> sc \<and> sc \<le> tier_max t) tiers = Some t"
    by (simp add: resolveTier_Inr)
  then show "tier_min t \<le> sc" and "sc \<le> tier_max t"
    by (auto simp: find_Some_iff)
  from f show "\<exists>i < length tiers. tiers ! i = t \<and>
         (\<forall>j < i. \<not> (tier_min (tiers ! j) \<le> sc \<and> sc \<le> tier_max (tiers ! j)))"
    unfolding find_Some_iff by blast
next
  assume "\<exists>t \<in> set tiers. tier_min t \<le> sc \<and> sc \<le> tier_max t"
  then have "find (\<lambda>t. tier_min t \<le> sc \<and> sc \<le> tier_max t) tiers \<noteq> None"
    by (auto simp: find_None_iff)
  then show "\<exists>t. resolveTier sc tiers = Inr t"
    by (auto simp: resolveTier_Inr)
next
  show "(\<exists>e. resolveTier sc tiers = Inl e) \<longleftrightarrow>
      \<not> (\<exists>t \<in> set tiers. tier_min t \<le> sc \<and> sc \<le> tier_max t)"
    by (auto simp: resolveTier_Inl find_None_iff)
next
  fix nft g'
  assume "buildGeneratedNft bp config g ts = Inr (nft, g')"
  from buildGeneratedNft_Inr [OF this]
  have tot: "totalScore nft = computeTotalScore (traits nft)"
    and r: "resolveTier (totalScore nft) (tier_thresholds (scoring config)) = Inr (tier nft)"
    by auto
  from r have "find (\<lambda>t. tier_min t \<le> totalScore nft \<and> totalScore nft \<le> tier_max t)
      (tier_thresholds (scoring config)) = Some (tier nft)"
    by (simp add: resolveTier_Inr)
  then show "tier_min (tier nft) \<le> totalScore nft" and "totalScore nft \<le> tier_max (tier nft)"
    by (auto simp: find_Some_iff)
  from tot show "totalScore nft = computeTotalScore (traits nft)" .
  from tot show "totalScore nft = sum_list (map score (traits nft))"
    by (simp add: computeTotalScore_sum)
qed


lemma sample_nft_AB:
  "buildGeneratedNft \<lparr>bp_id = 1, bp_station = hd sample_stations, bp_archetype = Bull\<rparr>
     sample_config (createRng [0x41, 0x42]) 1700000000000 =
   Inr (\<lparr>nft_id = 1, nft_station = hd sample_stations, nft_archetype = Bull,
         traits = [\<lparr>layerKey = ''background'', traitType = ''Background'',
                    trait_value = ''Red'', category = CHAOS, score = 1\<rparr>,
                   \<lparr>layerKey = ''body'', traitType = ''Body'', trait_value = ''Bull'',
                    category = CHAOS, score = 1\<rparr>],
         totalScore = 2, tier = hd sample_tiers, inscriptionTag = ''SSYU'',
         mintTimestamp = 1700000000000\<rparr>,
        (createRng [0x41, 0x42])\<lparr>calls := 6\<rparr>)"
proof -
  have t: "generateTag ((createRng [0x41, 0x42])\<lparr>calls := 2\<rparr>) =
      (''SSYU'', (createRng [0x41, 0x42])\<lparr>calls := 6\<rparr>)"
    by (simp add: generateTag_def eval_nat_numeral Let_def draw_def floorIndex_def
        INSCRIPTION_CHARS_def createRng_AB_draws)
  show ?thesis
    by (simp add: buildGeneratedNft_def sample_traits_AB computeTotalScore_def t
        resolveTier_def)
      (simp add: sample_config_def sample_tiers_def t)
qed

theorem resolveTier_consistent_witness:
  "resolveTier 7 sample_tiers = Inr (hd (tl sample_tiers)) \<and>
   (\<exists>t \<in> set sample_tiers. tier_min t \<le> 7 \<and> 7 \<le> tier_max t) \<and>
   tier_min (hd (tl sample_tiers)) \<le> 7 \<and> 7 \<le> tier_max (hd (tl sample_tiers)) \<and>
   \<not> (\<exists>t \<in> set sample_tiers. tier_min t \<le> 11 \<and> 11 \<le> tier_max t) \<and>
   (\<exists>e. resolveTier 11 sample_tiers = Inl e) \<and>
   (\<exists>nft g'. buildGeneratedNft \<lparr>bp_id = 1, bp_station = hd sample_stations, bp_archetype = Bull\<rparr>
       sample_config (createRng [0x41, 0x42]) 1700000000000 = Inr (nft, g') \<and>
      tier_min (tier nft) \<le> totalScore nft \<and> totalScore nft \<le> tier_max (tier nft) \<and>
      totalScore nft = computeTotalScore (traits nft))"
proof -
  let ?bp = "\<lparr>bp_id = 1, bp_station = hd sample_stations, bp_archetype = Bull\<rparr>"
  have r: "resolveTier 7 sample_tiers = Inr (hd (tl sample_tiers))"
    by (simp add: resolveTier_def sample_tiers_def)
  have n: "\<not> (\<exists>t \<in> set sample_tiers. tier_min t \<le> 11 \<and> 11 \<le> tier_max t)"
    by (simp add: sample_tiers_def)
  have y: "\<exists>t \<in> set sample_tiers. tier_min t \<le> 7 \<and> 7 \<le> tier_max t"
    by (simp add: sample_tiers_def)
  note a = resolveTier_consistent [of 7 sample_tiers ?bp sample_config "createRng [0x41, 0x42]"
      1700000000000]
  note b = resolveTier_consistent [of 11 sample_tiers ?bp sample_config "createRng [0x41, 0x42]"
      1700000000000]
  from a r have "tier_min (hd (tl sample_tiers)) \<le> 7 \<and> 7 \<le> tier_max (hd (tl sample_tiers))"
    by blast
  moreover from b n have "\<exists>e. resolveTier 11 sample_tiers = Inl e" by blast
  moreover from a sample_nft_AB
  have "\<exists>nft g'. buildGeneratedNft ?bp sample_config (createRng [0x41, 0x42]) 1700000000000
         = Inr (nft, g') \<and>
      tier_min (tier nft) \<le> totalScore nft \<and> totalScore nft \<le> tier_max (tier nft) \<and>
      totalScore nft = computeTotalScore (traits nft)"
    by blast
  ultimately show ?thesis using r n y by blast
qed

section \<open>Determinism\<close>

lemma map_prod_eq_iff:
  "map_prod f h p = map_prod f h q \<longleftrightarrow> f (fst p) = f (fst q) \<and> h (snd p) = h (snd q)"
  by (cases p; cases q) simp

lemma buildGeneratedNft_timestamp:
  "map_sum id (map_prod without_timestamp id) (buildGeneratedNft bp config g t1) =
   map_sum id (map_prod without_timestamp id) (buildGeneratedNft bp config g t2)"
  by (simp add: buildGeneratedNft_def Let_def split_beta without_timestamp_def
      split: sum.splits)

lemma buildAll_timestamp:
  "map_sum id (map_prod (map without_timestamp) id) (buildAll bps config g t1) =
   map_sum id (map_prod (map without_timestamp) id) (buildAll bps config g t2)"
proof (induction bps arbitrary: g)
  case Nil
  show ?case by simp
next
  case (Cons bp bps)
  note h = buildGeneratedNft_timestamp [of bp config g t1 t2]
  show ?case
  proof (cases "buildGeneratedNft bp config g t1")
    case (Inl e)
    with h show ?thesis by (cases "buildGeneratedNft bp config g t2") simp_all
  next
    case (Inr r1)
    with h obtain r2 where r2: "buildGeneratedNft bp config g t2 = Inr r2"
      by (cases "buildGeneratedNft bp config g t2") simp_all
    from h Inr r2 have eq: "without_timestamp (fst r1) = without_timestamp (fst r2)"
      and g: "snd r1 = snd r2"
      by (simp_all add: map_prod_eq_iff)
    from Cons.IH [of "snd r2"] Inr r2 eq g show ?thesis
      by (cases "buildAll bps config (snd r2) t1"; cases "buildAll bps config (snd r2) t2")
        (simp_all add: split_beta map_prod_eq_iff)
  qed
qed

text \<open>
  Claim C1. For every configuration and every seed, two runs of the pipeline (blueprint
  generation over \<open>STATION_DISTRIBUTION\<close>, then \<open>buildGeneratedNft\<close> for each blueprint),
  each on a fresh generator created from the seed, give the same blueprints and the same
  records in every field except the time stamp, and fail with the same error if they fail.
\<close>

theorem generateCollection_deterministic:
  "map_sum id (map_prod id (map without_timestamp)) (generateCollection config seed t1) =
   map_sum id (map_prod id (map without_timestamp)) (generateCollection config seed t2)"
proof (cases "buildNftBlueprints config STATION_DISTRIBUTION (createRng seed)")
  case (Inl e)
  then show ?thesis by (simp add: generateCollection_def)
next
  case (Inr r)
  from buildAll_timestamp [of "fst r" config "snd r" t1 t2] Inr show ?thesis
    by (cases "buildAll (fst r) config (snd r) t1"; cases "buildAll (fst r) config (snd r) t2")
      (simp_all add: generateCollection_def split_beta map_prod_eq_iff)
qed

section \<open>Blueprints\<close>

lemma swap_in_range:
  assumes "i < length xs" and "0 \<le> j" and "nat j < length xs"
  shows "\<exists>ys. swap xs i j = Some ys \<and> mset ys = mset xs"
  using assms by (simp add: swap_def mset_swap)

lemma shuffle_loop_perm:
  "unit_draws g \<Longrightarrow> i < length xs \<Longrightarrow>
   \<exists>ys. fst (shuffle_loop i (Some xs) g) = Some ys \<and> mset ys = mset xs"
proof (induction i arbitrary: xs g)
  case 0
  then show ?case by simp
next
  case (Suc i)
  let ?j = "floorIndex (fst (draw g)) (Suc i + 1)"
  from draw_range [OF Suc.prems(1)] have "0 \<le> ?j \<and> nat ?j < Suc i + 1"
    by (intro floorIndex_range) simp_all
  with Suc.prems(2) have j: "0 \<le> ?j" "nat ?j < length xs" by simp_all
  from swap_in_range [OF Suc.prems(2) j]
  obtain ys where ys: "swap xs (Suc i) ?j = Some ys" "mset ys = mset xs" by blast
  from ys(2) have "length ys = length xs" by (rule mset_eq_length)
  with Suc.prems(2) have "i < length ys" by simp
  from Suc.IH [OF draw_unit [OF Suc.prems(1)] this]
  obtain zs where "fst (shuffle_loop i (Some ys) (snd (draw g))) = Some zs" "mset zs = mset ys"
    by blast
  with ys show ?case by (simp add: Let_def split_beta)
qed

lemma shuffleInPlace_perm:
  assumes "unit_draws g"
  shows "\<exists>ys. fst (shuffleInPlace xs g) = Some ys \<and> mset ys = mset xs"
proof (cases xs)
  case Nil
  then show ?thesis by (simp add: shuffleInPlace_def)
next
  case (Cons x xs')
  then have "length xs - 1 < length xs" by simp
  from shuffle_loop_perm [OF assms this] show ?thesis by (simp add: shuffleInPlace_def)
qed

lemma pushMany_snd: "snd (pushMany n st a s) = snd s + int n"
  by (induction n arbitrary: s) simp_all

lemma pushMany_kinds:
  "map bp_kind (fst (pushMany n st a s)) = map bp_kind (fst s) @ replicate n (station_id st, a)"
  by (induction n arbitrary: s) (simp_all add: bp_kind_def replicate_app_Cons_same)

lemma pushMany_pairs:
  "map (\<lambda>bp. (bp_station bp, bp_archetype bp)) (fst (pushMany n st a s)) =
   map (\<lambda>bp. (bp_station bp, bp_archetype bp)) (fst s) @ replicate n (st, a)"
  by (induction n arbitrary: s) (simp_all add: replicate_app_Cons_same)

text \<open>The station ids and archetypes that one allocation contributes, in order.\<close>

lemma expandAllocations_kinds:
  "expandAllocations config allocs s = Inr s' \<Longrightarrow>
   map bp_kind (fst s') = map bp_kind (fst s) @
     concat (map (\<lambda>a. replicate (nat (hybrids (getArchetypeCounts a))) (stationId a, Hybrid) @
                      replicate (nat (bulls (getArchetypeCounts a))) (stationId a, Bull) @
                      replicate (nat (bears (getArchetypeCounts a))) (stationId a, Bear)) allocs)"
proof (induction allocs arbitrary: s)
  case Nil
  then show ?case by simp
next
  case (Cons a allocs)
  from Cons.prems obtain st where
    f: "find (\<lambda>st. station_id st = stationId a) (stations (hero_journey config)) = Some st"
    by (auto split: option.splits)
  then have sid: "station_id st = stationId a" by (auto simp: find_Some_iff)
  let ?s3 = "pushMany (nat (bears (getArchetypeCounts a))) st Bear
              (pushMany (nat (bulls (getArchetypeCounts a))) st Bull
                (pushMany (nat (hybrids (getArchetypeCounts a))) st Hybrid s))"
  from Cons.prems f have "expandAllocations config allocs ?s3 = Inr s'" by (simp add: Let_def)
  from Cons.IH [OF this] show ?case by (simp add: pushMany_kinds sid)
qed

lemma expandAllocations_returns:
  "\<forall>a \<in> set allocs. \<exists>st \<in> set (stations (hero_journey config)). station_id st = stationId a \<Longrightarrow>
   \<exists>s'. expandAllocations config allocs s = Inr s'"
proof (induction allocs arbitrary: s)
  case Nil
  then show ?case by simp
next
  case (Cons a allocs)
  from Cons.prems
  have "find (\<lambda>st. station_id st = stationId a) (stations (hero_journey config)) \<noteq> None"
    by (auto simp: find_None_iff)
  then obtain st where
    "find (\<lambda>st. station_id st = stationId a) (stations (hero_journey config)) = Some st"
    by blast
  moreover from Cons.prems
  have "\<forall>a \<in> set allocs. \<exists>st \<in> set (stations (hero_journey config)). station_id st = stationId a"
    by simp
  note Cons.IH [OF this]
  ultimately show ?case by (simp add: Let_def)
qed

lemma reassignIds_length [simp]: "length (reassignIds k bps) = length bps"
  by (induction bps arbitrary: k) simp_all

lemma reassignIds_nth:
  "i < length bps \<Longrightarrow> reassignIds k bps ! i = (bps ! i)\<lparr>bp_id := int (k + i) + 1\<rparr>"
proof (induction bps arbitrary: k i)
  case Nil
  then show ?case by simp
next
  case (Cons bp bps)
  then show ?case by (cases i) simp_all
qed

lemma reassignIds_ids: "map bp_id (reassignIds k bps) = map int [Suc k..<Suc k + length bps]"
proof (induction bps arbitrary: k)
  case Nil
  show ?case by simp
next
  case (Cons bp bps)
  have "[Suc k..<Suc k + length (bp # bps)] = Suc k # [Suc (Suc k)..<Suc (Suc k) + length bps]"
    by (subst upt_rec) simp
  with Cons.IH [of "Suc k"] show ?case by simp
qed

lemma reassignIds_kinds: "map bp_kind (reassignIds k bps) = map bp_kind bps"
  by (induction bps arbitrary: k) (simp_all add: bp_kind_def)

lemma reassignIds_pairs:
  "map (\<lambda>bp. (bp_station bp, bp_archetype bp)) (reassignIds k bps) =
   map (\<lambda>bp. (bp_station bp, bp_archetype bp)) bps"
  by (induction bps arbitrary: k) simp_all

lemma Math_round_bounds:
  assumes "0 \<le> x" and "x \<le> real_of_int m"
  shows "0 \<le> Math_round x \<and> Math_round x \<le> m"
proof -
  from assms(1) have "0 \<le> Math_round x" by (simp add: Math_round_def)
  moreover from assms(2) have "x + 1 / 2 < real_of_int m + 1" by simp
  then have "Math_round x \<le> m" unfolding Math_round_def by (simp only: floor_le_iff)
  ultimately show ?thesis by simp
qed

lemma valid_allocation_counts:
  assumes "valid_allocation a"
  shows "0 \<le> hybrids (getArchetypeCounts a) \<and> 0 \<le> bulls (getArchetypeCounts a) \<and>
         0 \<le> bears (getArchetypeCounts a)"
proof -
  let ?h = "case hybridCount a of None \<Rightarrow> 0 | Some h \<Rightarrow> h"
  let ?rem = "alloc_count a - ?h"
  have h: "hybrids (getArchetypeCounts a) = ?h"
    by (simp add: getArchetypeCounts_def Let_def split: option.split)
  from assms have rem: "0 \<le> ?rem" and r: "0 \<le> bullRatio a" "bullRatio a \<le> 1" and h0: "0 \<le> ?h"
    by (simp_all add: valid_allocation_def)
  from rem r have "0 \<le> real_of_int ?rem * bullRatio a" by simp
  moreover from rem r have "real_of_int ?rem * bullRatio a \<le> real_of_int ?rem"
    by (simp add: mult_left_le)
  ultimately have "0 \<le> Math_round (real_of_int ?rem * bullRatio a) \<and>
      Math_round (real_of_int ?rem * bullRatio a) \<le> ?rem"
    by (rule Math_round_bounds)
  moreover have "bulls (getArchetypeCounts a) = Math_round (real_of_int ?rem * bullRatio a)"
    by (simp add: getArchetypeCounts_def Let_def split: option.split)
  moreover have "bears (getArchetypeCounts a) = ?rem - bulls (getArchetypeCounts a)"
    by (simp add: getArchetypeCounts_def Let_def split: option.split)
  ultimately show ?thesis using h h0 by simp
qed

lemma counts_sum:
  "bulls (getArchetypeCounts a) + bears (getArchetypeCounts a) + hybrids (getArchetypeCounts a)
   = alloc_count a"
  by (simp add: getArchetypeCounts_def Let_def)

lemma valid_allocation_length:
  assumes "valid_allocation a"
  shows "int (nat (hybrids (getArchetypeCounts a)) + nat (bulls (getArchetypeCounts a)) +
           nat (bears (getArchetypeCounts a))) = alloc_count a"
  using valid_allocation_counts [OF assms] counts_sum [of a] by simp

lemma expanded_length:
  "\<forall>a \<in> set allocs. valid_allocation a \<Longrightarrow>
   int (length (concat (map (\<lambda>a.
          replicate (nat (hybrids (getArchetypeCounts a))) (stationId a, Hybrid) @
          replicate (nat (bulls (getArchetypeCounts a))) (stationId a, Bull) @
          replicate (nat (bears (getArchetypeCounts a))) (stationId a, Bear)) allocs)))
   = sum_list (map alloc_count allocs)"
proof (induction allocs)
  case Nil
  show ?case by simp
next
  case (Cons a allocs)
  from Cons.prems have "valid_allocation a" by simp
  from valid_allocation_length [OF this] Cons.IH Cons.prems show ?case by simp
qed

lemma buildNftBlueprints_shape:
  assumes "unit_draws g" and "expandAllocations config allocs ([], 1) = Inr (pre, nid)"
  shows "\<exists>ys. buildNftBlueprints config allocs g =
              Inr (reassignIds 0 ys, snd (shuffleInPlace pre g)) \<and> mset ys = mset pre"
proof -
  from shuffleInPlace_perm [OF assms(1), of pre]
  obtain ys where ys: "fst (shuffleInPlace pre g) = Some ys" "mset ys = mset pre" by blast
  obtain r g1 where sh: "shuffleInPlace pre g = (r, g1)" by (cases "shuffleInPlace pre g")
  with ys(1) have "r = Some ys" by simp
  with sh assms(2) have "buildNftBlueprints config allocs g =
      Inr (reassignIds 0 ys, snd (shuffleInPlace pre g))"
    by (simp add: buildNftBlueprints_def)
  with ys(2) show ?thesis by blast
qed

lemma buildNftBlueprints_kinds:
  assumes "unit_draws g" and "buildNftBlueprints config allocs g = Inr (bps, g')"
  shows "mset (map bp_kind bps) =
     mset (concat (map (\<lambda>a.
        replicate (nat (hybrids (getArchetypeCounts a))) (stationId a, Hybrid) @
        replicate (nat (bulls (getArchetypeCounts a))) (stationId a, Bull) @
        replicate (nat (bears (getArchetypeCounts a))) (stationId a, Bear)) allocs))"
proof -
  from assms(2) obtain pre nid where e: "expandAllocations config allocs ([], 1) = Inr (pre, nid)"
    by (auto simp: buildNftBlueprints_def split: sum.splits)
  from buildNftBlueprints_shape [OF assms(1) e] assms(2)
  obtain ys where ys: "bps = reassignIds 0 ys" "mset ys = mset pre" by auto
  from ys(2) have "mset (map bp_kind ys) = mset (map bp_kind pre)" by simp
  with ys(1) expandAllocations_kinds [OF e] show ?thesis
    by (simp only: reassignIds_kinds fst_conv) simp
qed

text \<open>
  Claim C4, as amended. For every distribution whose allocations have a hybrid count
  between 0 and their count and a bull ratio between 0 and 1, every configuration whose
  stations include every \<open>stationId\<close> of the distribution, and every draw function with
  values in \<open>[0, 1)\<close>, \<open>buildNftBlueprints\<close> returns exactly as many blueprints as the sum
  of the distribution's counts (333 for \<open>STATION_DISTRIBUTION\<close>), and their ids are
  exactly \<open>1, \<dots>, total\<close>, without duplicates or gaps, each blueprint carrying its 1-based
  position after the shuffle.
\<close>

theorem buildNftBlueprints_ids:
  assumes "\<forall>a \<in> set allocs. valid_allocation a"
    and "\<forall>a \<in> set allocs. \<exists>st \<in> set (stations (hero_journey config)). station_id st = stationId a"
    and "unit_draws g"
  shows "\<exists>bps g'. buildNftBlueprints config allocs g = Inr (bps, g') \<and>
     int (length bps) = sum_list (map alloc_count allocs) \<and>
     (\<forall>i < length bps. bp_id (bps ! i) = int i + 1) \<and>
     distinct (map bp_id bps) \<and>
     set (map bp_id bps) = {1..sum_list (map alloc_count allocs)} \<and>
     mset (map bp_id bps) = mset (map int [1..<Suc (length bps)])"
proof -
  from expandAllocations_returns [OF assms(2), of "([], 1)"]
  obtain pre nid where e: "expandAllocations config allocs ([], 1) = Inr (pre, nid)"
    by (metis surj_pair)
  from buildNftBlueprints_shape [OF assms(3) e]
  obtain ys where b: "buildNftBlueprints config allocs g =
      Inr (reassignIds 0 ys, snd (shuffleInPlace pre g))" and m: "mset ys = mset pre"
    by blast
  let ?bps = "reassignIds 0 ys"
  from buildNftBlueprints_kinds [OF assms(3) b]
  have "length (map bp_kind ?bps) = length (concat (map (\<lambda>a.
        replicate (nat (hybrids (getArchetypeCounts a))) (stationId a, Hybrid) @
        replicate (nat (bulls (getArchetypeCounts a))) (stationId a, Bull) @
        replicate (nat (bears (getArchetypeCounts a))) (stationId a, Bear)) allocs))"
    by (rule mset_eq_length)
  with expanded_length [OF assms(1)]
  have len: "int (length ?bps) = sum_list (map alloc_count allocs)" by simp
  have ids: "map bp_id ?bps = map int [1..<Suc (length ?bps)]"
    by (simp add: reassignIds_ids)
  have nth: "\<forall>i < length ?bps. bp_id (?bps ! i) = int i + 1"
    by (simp add: reassignIds_nth)
  have "inj_on int (set [1..<Suc (length ?bps)])" by (simp add: inj_on_def)
  then have dist: "distinct (map bp_id ?bps)"
    by (simp only: ids distinct_map) simp
  have "set (map bp_id ?bps) = int ` {1..<Suc (length ?bps)}"
    by (simp only: ids set_map set_upt)
  also have "\<dots> = {1..<int (length ?bps) + 1}"
    by (simp add: image_int_atLeastLessThan add.commute)
  also have "\<dots> = {1..sum_list (map alloc_count allocs)}"
    by (simp only: atLeastLessThanPlusOne_atLeastAtMost_int len)
  finally have st: "set (map bp_id ?bps) = {1..sum_list (map alloc_count allocs)}" .
  from ids have "mset (map bp_id ?bps) = mset (map int [1..<Suc (length ?bps)])" by simp
  with b len nth dist st show ?thesis by blast
qed

lemma STATION_DISTRIBUTION_valid: "\<forall>a \<in> set STATION_DISTRIBUTION. valid_allocation a"
  by (simp add: STATION_DISTRIBUTION_def valid_allocation_def)

lemma sample_config_stations:
  "\<forall>a \<in> set STATION_DISTRIBUTION.
     \<exists>st \<in> set (stations (hero_journey sample_config)). station_id st = stationId a"
  by (simp add: STATION_DISTRIBUTION_def sample_config_def sample_stations_def)

theorem buildNftBlueprints_ids_witness:
  "list_all valid_allocation STATION_DISTRIBUTION \<and>
   set (map stationId STATION_DISTRIBUTION)
     \<subseteq> set (map station_id (stations (hero_journey sample_config))) \<and>
   unit_draws (createRng [0x41, 0x42]) \<and>
   (\<exists>bps g'. buildNftBlueprints sample_config STATION_DISTRIBUTION (createRng [0x41, 0x42])
        = Inr (bps, g') \<and>
      length bps = 333 \<and> (\<forall>i < length bps. bp_id (bps ! i) = int i + 1) \<and>
      distinct (map bp_id bps) \<and> set (map bp_id bps) = {1..333})"
proof -
  have u: "unit_draws (createRng [0x41, 0x42])" by (rule createRng_unit)
  have s: "sum_list (map alloc_count STATION_DISTRIBUTION) = 333"
    by (simp add: STATION_DISTRIBUTION_def)
  from buildNftBlueprints_ids [OF STATION_DISTRIBUTION_valid sample_config_stations u]
  obtain bps g' where
    "buildNftBlueprints sample_config STATION_DISTRIBUTION (createRng [0x41, 0x42]) = Inr (bps, g')"
    "int (length bps) = sum_list (map alloc_count STATION_DISTRIBUTION)"
    "\<forall>i < length bps. bp_id (bps ! i) = int i + 1"
    "distinct (map bp_id bps)"
    "set (map bp_id bps) = {1..sum_list (map alloc_count STATION_DISTRIBUTION)}"
    by blast
  with s have "\<exists>bps g'. buildNftBlueprints sample_config STATION_DISTRIBUTION
        (createRng [0x41, 0x42]) = Inr (bps, g') \<and>
      length bps = 333 \<and> (\<forall>i < length bps. bp_id (bps ! i) = int i + 1) \<and>
      distinct (map bp_id bps) \<and> set (map bp_id bps) = {1..333}"
    by (intro exI [of _ bps] exI [of _ g']) simp
  moreover have "list_all valid_allocation STATION_DISTRIBUTION"
    using STATION_DISTRIBUTION_valid by (simp add: list_all_iff)
  moreover have "set (map stationId STATION_DISTRIBUTION)
     \<subseteq> set (map station_id (stations (hero_journey sample_config)))"
    by (simp add: STATION_DISTRIBUTION_def sample_config_def sample_stations_def)
  ultimately show ?thesis using u by blast
qed

text \<open>
  The claim as stated (every distribution) fails: for one station with count 1 and hybrid
  count 2 the station is known and the draws lie in \<open>[0, 1)\<close>, the counts sum to 1, and
  two blueprints are returned, with the ids 1 and 2.
\<close>

theorem buildNftBlueprints_ids_counterexample:
  "set (map stationId overfull_distribution)
     \<subseteq> set (map station_id (stations (hero_journey sample_config))) \<and>
   unit_draws (createRng [0x41, 0x42]) \<and>
   sum_list (map alloc_count overfull_distribution) = 1 \<and>
   map_sum id (\<lambda>r. map bp_id (fst r))
     (buildNftBlueprints sample_config overfull_distribution (createRng [0x41, 0x42]))
     = Inr [1, 2]"
proof -
  have c: "getArchetypeCounts (hd overfull_distribution) = \<lparr>bulls = 0, bears = - 1, hybrids = 2\<rparr>"
    by (simp add: overfull_distribution_def getArchetypeCounts_def Math_round_def)
  have e: "map_sum id (\<lambda>r. length (fst r))
      (expandAllocations sample_config overfull_distribution ([], 1)) = Inr 2"
    using c by (simp add: overfull_distribution_def sample_config_def sample_stations_def
        eval_nat_numeral)
  then obtain pre nid where
    p: "expandAllocations sample_config overfull_distribution ([], 1) = Inr (pre, nid)"
    and l: "length pre = 2"
    by (cases "expandAllocations sample_config overfull_distribution ([], 1)") auto
  have u: "unit_draws (createRng [0x41, 0x42])" by (rule createRng_unit)
  from buildNftBlueprints_shape [OF u p] obtain ys where
    b: "buildNftBlueprints sample_config overfull_distribution (createRng [0x41, 0x42]) =
        Inr (reassignIds 0 ys, snd (shuffleInPlace pre (createRng [0x41, 0x42])))"
    and m: "mset ys = mset pre" by blast
  from mset_eq_length [OF m] l have "length ys = 2" by simp
  then have "map bp_id (reassignIds 0 ys) = [1, 2]"
    by (simp add: reassignIds_ids eval_nat_numeral)
  with b u show ?thesis
    by (simp add: overfull_distribution_def sample_config_def sample_stations_def)
qed

lemma STATION_DISTRIBUTION_hybrids:
  "filter (\<lambda>k. snd k = Hybrid) (concat (map (\<lambda>a.
        replicate (nat (hybrids (getArchetypeCounts a))) (stationId a, Hybrid) @
        replicate (nat (bulls (getArchetypeCounts a))) (stationId a, Bull) @
        replicate (nat (bears (getArchetypeCounts a))) (stationId a, Bear))
      STATION_DISTRIBUTION)) = [(8, Hybrid)]"
  by (simp add: STATION_DISTRIBUTION_def getArchetypeCounts_def Let_def filter_concat
      filter_replicate)

lemma buildNftBlueprints_pairs:
  assumes "unit_draws g"
    and "expandAllocations config allocs ([], 1) = Inr (pre, nid)"
    and "buildNftBlueprints config allocs g = Inr (bps, g')"
  shows "mset (map (\<lambda>bp. (bp_station bp, bp_archetype bp)) bps) =
         mset (map (\<lambda>bp. (bp_station bp, bp_archetype bp)) pre)"
proof -
  from buildNftBlueprints_shape [OF assms(1,2)] assms(3)
  obtain ys where ys: "bps = reassignIds 0 ys" "mset ys = mset pre" by auto
  from ys(2) have "mset (map (\<lambda>bp. (bp_station bp, bp_archetype bp)) ys) =
      mset (map (\<lambda>bp. (bp_station bp, bp_archetype bp)) pre)" by simp
  with ys(1) show ?thesis by (simp only: reassignIds_pairs)
qed

text \<open>
  Claim C9. In \<open>STATION_DISTRIBUTION\<close> exactly one station, station 8, declares a hybrid
  count, and it is 1. For every draw function with values in \<open>[0, 1)\<close>, exactly one of the
  blueprints that \<open>buildNftBlueprints\<close> returns over that distribution has the archetype
  \<open>Hybrid\<close>, and its station id is 8; the shuffle and the reassignment of the ids keep the
  multiset of the (station, archetype) pairs.
\<close>

theorem hybrid_exactness:
  "map (\<lambda>a. (stationId a, hybridCount a))
     (filter (\<lambda>a. hybridCount a \<noteq> None) STATION_DISTRIBUTION) = [(8, Some 1)] \<and>
   (\<forall>config g bps g'. unit_draws g \<longrightarrow>
      buildNftBlueprints config STATION_DISTRIBUTION g = Inr (bps, g') \<longrightarrow>
      (\<exists>bp. filter (\<lambda>bp. bp_archetype bp = Hybrid) bps = [bp] \<and>
            station_id (bp_station bp) = 8)) \<and>
   (\<forall>config allocs g pre nid bps g'. unit_draws g \<longrightarrow>
      expandAllocations config allocs ([], 1) = Inr (pre, nid) \<longrightarrow>
      buildNftBlueprints config allocs g = Inr (bps, g') \<longrightarrow>
      mset (map (\<lambda>bp. (bp_station bp, bp_archetype bp)) bps) =
      mset (map (\<lambda>bp. (bp_station bp, bp_archetype bp)) pre))"
proof (intro conjI allI impI)
  show "map (\<lambda>a. (stationId a, hybridCount a))
     (filter (\<lambda>a. hybridCount a \<noteq> None) STATION_DISTRIBUTION) = [(8, Some 1)]"
    by (simp add: STATION_DISTRIBUTION_def)
next
  fix config g bps g'
  assume u: "unit_draws g"
    and b: "buildNftBlueprints config STATION_DISTRIBUTION g = Inr (bps, g')"
  let ?H = "\<lambda>k :: int \<times> Archetype. snd k = Hybrid"
  from buildNftBlueprints_kinds [OF u b]
  have "mset (filter ?H (map bp_kind bps)) = mset (filter ?H (concat (map (\<lambda>a.
        replicate (nat (hybrids (getArchetypeCounts a))) (stationId a, Hybrid) @
        replicate (nat (bulls (getArchetypeCounts a))) (stationId a, Bull) @
        replicate (nat (bears (getArchetypeCounts a))) (stationId a, Bear))
      STATION_DISTRIBUTION)))"
    by (simp only: mset_filter)
  then have "mset (filter ?H (map bp_kind bps)) = {#(8, Hybrid)#}"
    by (simp only: STATION_DISTRIBUTION_hybrids) simp
  then have "filter ?H (map bp_kind bps) = [(8, Hybrid)]"
    by (simp only: mset_single_iff)
  then have m: "map bp_kind (filter (\<lambda>bp. bp_archetype bp = Hybrid) bps) = [(8, Hybrid)]"
    by (simp add: filter_map comp_def bp_kind_def)
  then obtain bp where f: "filter (\<lambda>bp. bp_archetype bp = Hybrid) bps = [bp]"
    by (cases "filter (\<lambda>bp. bp_archetype bp = Hybrid) bps") auto
  with m have "station_id (bp_station bp) = 8" by (simp add: bp_kind_def)
  with f show "\<exists>bp. filter (\<lambda>bp. bp_archetype bp = Hybrid) bps = [bp] \<and>
            station_id (bp_station bp) = 8" by blast
next
  fix config allocs g pre nid bps g'
  assume "unit_draws g" and "expandAllocations config allocs ([], 1) = Inr (pre, nid)"
    and "buildNftBlueprints config allocs g = Inr (bps, g')"
  then show "mset (map (\<lambda>bp. (bp_station bp, bp_archetype bp)) bps) =
      mset (map (\<lambda>bp. (bp_station bp, bp_archetype bp)) pre)"
    by (rule buildNftBlueprints_pairs)
qed

lemma sample_blueprints_return:
  "\<exists>pre nid bps g'.
     expandAllocations sample_config STATION_DISTRIBUTION ([], 1) = Inr (pre, nid) \<and>
     buildNftBlueprints sample_config STATION_DISTRIBUTION (createRng [0x41, 0x42]) = Inr (bps, g')"
proof -
  from expandAllocations_returns [OF sample_config_stations, of "([], 1)"]
  obtain pre nid where
    e: "expandAllocations sample_config STATION_DISTRIBUTION ([], 1) = Inr (pre, nid)"
    by (metis surj_pair)
  from buildNftBlueprints_shape [OF createRng_unit e] e show ?thesis by blast
qed

theorem hybrid_exactness_witness:
  "unit_draws (createRng [0x41, 0x42]) \<and>
   (\<exists>pre nid bps g'.
      expandAllocations sample_config STATION_DISTRIBUTION ([], 1) = Inr (pre, nid) \<and>
      buildNftBlueprints sample_config STATION_DISTRIBUTION (createRng [0x41, 0x42])
        = Inr (bps, g') \<and>
      (\<exists>bp. filter (\<lambda>bp. bp_archetype bp = Hybrid) bps = [bp] \<and>
            station_id (bp_station bp) = 8) \<and>
      mset (map (\<lambda>bp. (bp_station bp, bp_archetype bp)) bps) =
      mset (map (\<lambda>bp. (bp_station bp, bp_archetype bp)) pre))"
proof -
  have u: "unit_draws (createRng [0x41, 0x42])" by (rule createRng_unit)
  from sample_blueprints_return obtain pre nid bps g' where
    e: "expandAllocations sample_config STATION_DISTRIBUTION ([], 1) = Inr (pre, nid)"
    and b: "buildNftBlueprints sample_config STATION_DISTRIBUTION (createRng [0x41, 0x42])
        = Inr (bps, g')"
    by blast
  from hybrid_exactness u b
  have h: "\<exists>bp. filter (\<lambda>bp. bp_archetype bp = Hybrid) bps = [bp] \<and>
            station_id (bp_station bp) = 8" by blast
  from hybrid_exactness u e b
  have "mset (map (\<lambda>bp. (bp_station bp, bp_archetype bp)) bps) =
      mset (map (\<lambda>bp. (bp_station bp, bp_archetype bp)) pre)" by blast
  with u e b h show ?thesis by blast
qed

section \<open>The pipeline on the sample configuration\<close>

lemma unit_draws_same: "draws g' = draws g \<Longrightarrow> unit_draws g \<Longrightarrow> unit_draws g'"
  by (simp add: unit_draws_def)

lemma sample_weights_range: "1 \<le> sample_weights c \<and> sample_weights c \<le> 5"
  by (cases c) (simp_all add: sample_weights_def)

lemma sample_total_range:
  assumes "list_all2 (drafted_from sample_config) (layers sample_config) trs"
  shows "2 \<le> computeTotalScore trs \<and> computeTotalScore trs \<le> 10"
proof -
  from assms have "length trs = 2"
    by (simp add: list_all2_lengthD [symmetric] sample_config_def sample_layers_def)
  then obtain t1 t2 where trs: "trs = [t1, t2]"
    by (cases trs; cases "tl trs") auto
  from assms trs obtain c1 c2 where "score t1 = sample_weights c1" "score t2 = sample_weights c2"
    by (auto simp: sample_config_def sample_layers_def drafted_from_def)
  with sample_weights_range [of c1] sample_weights_range [of c2] trs show ?thesis
    by (simp add: computeTotalScore_def)
qed

lemma sample_tier_found:
  assumes "2 \<le> sc" and "sc \<le> 10"
  shows "\<exists>t. resolveTier sc (tier_thresholds (scoring sample_config)) = Inr t"
proof (cases "sc \<le> 5")
  case True
  with assms show ?thesis by (simp add: resolveTier_def sample_config_def sample_tiers_def)
next
  case False
  with assms show ?thesis by (simp add: resolveTier_def sample_config_def sample_tiers_def)
qed

lemma sample_nft_returns:
  assumes "unit_draws g"
  shows "\<exists>nft g'. buildGeneratedNft bp sample_config g ts = Inr (nft, g') \<and> draws g' = draws g"
proof -
  have "\<forall>l \<in> set (layers sample_config). layer_traits l \<noteq> []"
    by (simp add: sample_config_def sample_layers_def)
  from generateTraits_loop_ok [OF assms this, of sample_config]
  obtain trs g1 where t: "generateTraitsForNft sample_config g = Inr (trs, g1)"
    and d: "draws g1 = draws g"
    and a: "list_all2 (drafted_from sample_config) (layers sample_config) trs"
    by (auto simp: generateTraitsForNft_def)
  from sample_total_range [OF a] sample_tier_found
  obtain tr where r: "resolveTier (computeTotalScore trs)
      (tier_thresholds (scoring sample_config)) = Inr tr" by blast
  from d have "draws (snd (generateTag g1)) = draws g"
    by (simp add: generateTag_def tag_loop_draws)
  with t r show ?thesis
    by (simp add: buildGeneratedNft_def Let_def split_beta)
qed

lemma sample_buildAll_returns:
  "unit_draws g \<Longrightarrow>
   \<exists>nfts g'. buildAll bps sample_config g ts = Inr (nfts, g') \<and> length nfts = length bps"
proof (induction bps arbitrary: g)
  case Nil
  show ?case by simp
next
  case (Cons bp bps)
  from sample_nft_returns [OF Cons.prems, of bp ts]
  obtain nft g1 where n: "buildGeneratedNft bp sample_config g ts = Inr (nft, g1)"
    and d: "draws g1 = draws g" by blast
  from Cons.IH [OF unit_draws_same [OF d Cons.prems]]
  obtain nfts g2 where "buildAll bps sample_config g1 ts = Inr (nfts, g2)"
    "length nfts = length bps" by blast
  with n show ?case by simp
qed

lemma buildNftBlueprints_returns:
  assumes "\<forall>a \<in> set allocs. valid_allocation a"
    and "\<forall>a \<in> set allocs. \<exists>st \<in> set (stations (hero_journey config)). station_id st = stationId a"
    and "unit_draws g"
  shows "\<exists>bps g'. buildNftBlueprints config allocs g = Inr (bps, g') \<and>
     int (length bps) = sum_list (map alloc_count allocs) \<and> draws g' = draws g"
proof -
  from expandAllocations_returns [OF assms(2), of "([], 1)"]
  obtain pre nid where e: "expandAllocations config allocs ([], 1) = Inr (pre, nid)"
    by (metis surj_pair)
  from buildNftBlueprints_shape [OF assms(3) e]
  obtain ys where b: "buildNftBlueprints config allocs g =
      Inr (reassignIds 0 ys, snd (shuffleInPlace pre g))" by blast
  from buildNftBlueprints_kinds [OF assms(3) b]
  have "length (map bp_kind (reassignIds 0 ys)) = length (concat (map (\<lambda>a.
        replicate (nat (hybrids (getArchetypeCounts a))) (stationId a, Hybrid) @
        replicate (nat (bulls (getArchetypeCounts a))) (stationId a, Bull) @
        replicate (nat (bears (getArchetypeCounts a))) (stationId a, Bear)) allocs))"
    by (rule mset_eq_length)
  with expanded_length [OF assms(1)]
  have "int (length (reassignIds 0 ys)) = sum_list (map alloc_count allocs)" by simp
  moreover have "draws (snd (shuffleInPlace pre g)) = draws g"
    by (simp add: shuffleInPlace_def shuffle_loop_draws)
  ultimately show ?thesis using b by blast
qed

lemma sample_collection_returns:
  "\<exists>bps nfts. generateCollection sample_config seed ts = Inr (bps, nfts) \<and>
     length bps = 333 \<and> length nfts = 333"
proof -
  have s: "sum_list (map alloc_count STATION_DISTRIBUTION) = 333"
    by (simp add: STATION_DISTRIBUTION_def)
  from buildNftBlueprints_returns [OF STATION_DISTRIBUTION_valid sample_config_stations
      createRng_unit [of seed]] s
  obtain bps g1 where b: "buildNftBlueprints sample_config STATION_DISTRIBUTION (createRng seed)
      = Inr (bps, g1)" and l: "length bps = 333" and d: "draws g1 = draws (createRng seed)"
    by auto
  from sample_buildAll_returns [OF unit_draws_same [OF d createRng_unit], of bps ts]
  obtain nfts g2 where "buildAll bps sample_config g1 ts = Inr (nfts, g2)"
    "length nfts = length bps" by blast
  with b l show ?thesis by (simp add: generateCollection_def)
qed

theorem generateCollection_deterministic_witness:
  "(\<exists>bps nfts. generateCollection sample_config [0x41, 0x42] 1700000000000 = Inr (bps, nfts) \<and>
      length bps = 333 \<and> length nfts = 333) \<and>
   map_sum id (map_prod id (map without_timestamp))
     (generateCollection sample_config [0x41, 0x42] 1700000000000) =
   map_sum id (map_prod id (map without_timestamp))
     (generateCollection sample_config [0x41, 0x42] 1800000000000)"
  using sample_collection_returns [of "[0x41, 0x42]" 1700000000000]
    generateCollection_deterministic [of sample_config "[0x41, 0x42]" 1700000000000 1800000000000]
  by blast

end
